theory Spec2Isabelle
  imports
    Complex_Main
    "HOL-Library.Option_ord"
    "HOL-Library.Char_ord"
    "HOL-Library.List_Lexorder"
    "HOL-Library.Product_Lexorder"
begin

section \<open>Fraud analysis: feature derivation and grouped reports\<close>

text \<open>
  A shallow embedding of \<^verbatim>\<open>fraud_analysis.py\<close>: \<^verbatim>\<open>load_data\<close> (the derived
  columns) and the SQL queries of section 2 of that file. The plotting and export
  functions are not modelled.

  Conventions of the model.
  \<^item> A timestamp is the number of nanoseconds since 1970-01-01 00:00:00, which is how
    pandas holds a \<^verbatim>\<open>datetime64[ns]\<close> value. SQLite receives the column as ISO text
    with microseconds, whose text order is the chronological order, so \<^verbatim>\<open>MIN\<close> and
    \<^verbatim>\<open>MAX\<close> over that column are modelled on the numbers, cut to microseconds.
  \<^item> \<^verbatim>\<open>amt\<close> is an exact rational: the rounding error of binary floating point is not
    modelled. Comparisons against the bin edges are exact on floats as well.
  \<^item> Every cell of the input is present (no missing values in the raw columns); the
    derived bucket columns are the only nullable columns. SQL \<^verbatim>\<open>NULL\<close> is \<open>None\<close>.
  \<^item> An exception is a value \<open>Inl e\<close>; a function that can raise returns a sum.
  \<^item> \<^verbatim>\<open>is_fraud\<close> is the integer column of the dataset (0 or 1 in well-formed data); the
    fraud rows are the rows with \<^verbatim>\<open>is_fraud = 1\<close>, as in the queries.
\<close>

subsection \<open>The raw rows and the derived columns\<close>

record transaction =
  trans_date_trans_time :: int
  cc_num :: int
  merchant :: string
  category :: string
  amt :: rat
  gender :: string
  state :: string
  city_pop :: int
  dob :: int
  is_fraud :: int

record txn_row = transaction +
  txn_hour :: int
  txn_day_of_week :: int
  txn_month :: string
  age :: int
  age_group :: "string option"
  amount_bucket :: "string option"
  city_size :: "string option"

definition ns_per_hour :: int where
  "ns_per_hour = 3600000000000"

definition ns_per_day :: int where
  "ns_per_day = 86400000000000"

text \<open>\<^verbatim>\<open>.dt.hour\<close> and \<^verbatim>\<open>.dt.dayofweek\<close> (0 = Monday; 1970-01-01 was a Thursday).\<close>

definition dt_hour :: "int \<Rightarrow> int" where
  "dt_hour ts = (ts div ns_per_hour) mod 24"

definition dt_dayofweek :: "int \<Rightarrow> int" where
  "dt_dayofweek ts = (ts div ns_per_day + 3) mod 7"

text \<open>
  \<^verbatim>\<open>.dt.to_period("M").astype(str)\<close>: the year and month of the proleptic Gregorian
  calendar, printed as \<^verbatim>\<open>YYYY-MM\<close>. The year and month are computed from the day number
  by the usual era/day-of-era decomposition (eras of 400 years starting on 1 March). A
  nanosecond timestamp lies in the years 1677 to 2262, so the year has four digits.
\<close>

definition civil_year_month :: "int \<Rightarrow> int \<times> int" where
  "civil_year_month d =
     (let z = d + 719468;
          era = z div 146097;
          doe = z - era * 146097;
          yoe = (doe - doe div 1460 + doe div 36524 - doe div 146096) div 365;
          doy = doe - (365 * yoe + yoe div 4 - yoe div 100);
          mp = (5 * doy + 2) div 153;
          m = (if mp < 10 then mp + 3 else mp - 9);
          y = yoe + era * 400 + (if m \<le> 2 then 1 else 0)
      in (y, m))"

definition digit_char :: "int \<Rightarrow> char" where
  "digit_char n = ''0123456789'' ! nat (n mod 10)"

definition period_str :: "int \<times> int \<Rightarrow> string" where
  "period_str ym =
     (case ym of (y, m) \<Rightarrow>
        [digit_char (y div 1000), digit_char (y div 100), digit_char (y div 10), digit_char y]
        @ ''-'' @ [digit_char (m div 10), digit_char m])"

definition dt_month :: "int \<Rightarrow> string" where
  "dt_month ts = period_str (civil_year_month (ts div ns_per_day))"

text \<open>
  \<^verbatim>\<open>(df["trans_date_trans_time"] - df["dob"]).dt.days\<close>: the day component of a
  Timedelta is the floor of the difference in days (a difference of minus one hour has
  \<^verbatim>\<open>days = -1\<close>).
\<close>

definition elapsed_days :: "int \<Rightarrow> int \<Rightarrow> int" where
  "elapsed_days ts birth = (ts - birth) div ns_per_day"

text \<open>
  \<^verbatim>\<open>.astype(int)\<close> on a float column converts as C does: the fractional part is dropped,
  so the value moves toward zero.
\<close>

definition astype_int :: "rat \<Rightarrow> int" where
  "astype_int q = (if 0 \<le> q then \<lfloor>q\<rfloor> else \<lceil>q\<rceil>)"

text \<open>
  \<^verbatim>\<open>(days / 365.25).astype(int)\<close>. The quotient is a multiple of 1/1461; within the range
  of day counts that a nanosecond timestamp can hold, the correctly rounded float quotient
  lies on the same side of every integer as the exact quotient, so the exact quotient is
  used here.
\<close>

definition age_years :: "int \<Rightarrow> int \<Rightarrow> int" where
  "age_years ts birth = astype_int (rat_of_int (elapsed_days ts birth) / 365.25)"

subsection \<open>Binning as \<^verbatim>\<open>pd.cut\<close> does it\<close>

text \<open>
  \<^verbatim>\<open>pd.cut(x, bins, labels)\<close> with the defaults \<^verbatim>\<open>right=True\<close>,
  \<^verbatim>\<open>include_lowest=False\<close>: the position of \<open>x\<close> among the edges is
  \<^verbatim>\<open>bins.searchsorted(x, side="left")\<close>, the number of edges strictly below \<open>x\<close> (the
  edges are increasing); position 0 and position \<open>len(bins)\<close> give no category, and
  position \<open>i\<close> gives \<open>labels[i - 1]\<close>. An edge is \<open>Some v\<close>, or \<open>None\<close> for
  \<^verbatim>\<open>float("inf")\<close>.
\<close>

definition edge_less :: "'a::linorder option \<Rightarrow> 'a \<Rightarrow> bool" where
  "edge_less e x = (case e of None \<Rightarrow> False | Some v \<Rightarrow> v < x)"

definition searchsorted_left :: "'a::linorder option list \<Rightarrow> 'a \<Rightarrow> nat" where
  "searchsorted_left bins x = length (takeWhile (\<lambda>e. edge_less e x) bins)"

definition pd_cut :: "'a::linorder option list \<Rightarrow> string list \<Rightarrow> 'a \<Rightarrow> string option" where
  "pd_cut bins labels x =
     (let i = searchsorted_left bins x
      in if i = 0 \<or> i = length bins then None else Some (labels ! (i - 1)))"

definition age_bins :: "int option list" where
  "age_bins = [Some 0, Some 25, Some 35, Some 45, Some 55, Some 65, Some 120]"

definition age_labels :: "string list" where
  "age_labels = [''18-24'', ''25-34'', ''35-44'', ''45-54'', ''55-64'', ''65+'']"

definition amount_bins :: "rat option list" where
  "amount_bins = [Some 0, Some 100, Some 500, Some 1000, None]"

definition amount_labels :: "string list" where
  "amount_labels = [''0-100'', ''100-500'', ''500-1000'', ''1000+'']"

definition city_bins :: "int option list" where
  "city_bins = [Some 0, Some 10000, Some 100000, Some 500000, None]"

definition city_labels :: "string list" where
  "city_labels = [''Rural (<10K)'', ''Small (10K-100K)'', ''Mid (100K-500K)'', ''Large (500K+)'']"

definition cut_age :: "int \<Rightarrow> string option" where
  "cut_age a = pd_cut age_bins age_labels a"

definition cut_amount :: "rat \<Rightarrow> string option" where
  "cut_amount a = pd_cut amount_bins amount_labels a"

definition cut_city :: "int \<Rightarrow> string option" where
  "cut_city p = pd_cut city_bins city_labels p"

text \<open>
  The failures of the program: the \<^verbatim>\<open>.dt\<close> accessor applied to a column that does not
  hold datetimes (an \<^verbatim>\<open>AttributeError\<close>), and \<^verbatim>\<open>int(...)\<close> applied to a missing
  value.
\<close>

datatype error = NotDatetimeLike | IntConversionError

text \<open>One row of \<^verbatim>\<open>load_data\<close>: the raw columns are kept, the derived ones are added.\<close>

definition derive_row :: "transaction \<Rightarrow> txn_row" where
  "derive_row t =
     (let a = age_years (trans_date_trans_time t) (dob t)
      in transaction.extend t
           (txn_row.fields
              (dt_hour (trans_date_trans_time t))
              (dt_dayofweek (trans_date_trans_time t))
              (dt_month (trans_date_trans_time t))
              a
              (cut_age a)
              (cut_amount (amt t))
              (cut_city (city_pop t))))"

text \<open>
  \<^verbatim>\<open>df.to_sql\<close> hands each datetime to SQLite as a Python \<^verbatim>\<open>datetime\<close>, printed as
  ISO text: the nanoseconds below a microsecond are dropped.
\<close>

definition to_sql_datetime :: "int \<Rightarrow> int" where
  "to_sql_datetime ts = (ts div 1000) * 1000"

definition to_sql_row :: "txn_row \<Rightarrow> txn_row" where
  "to_sql_row r =
     r\<lparr>trans_date_trans_time := to_sql_datetime (trans_date_trans_time r),
       dob := to_sql_datetime (dob r)\<rparr>"

text \<open>The rows of the \<^verbatim>\<open>transactions\<close> table that \<^verbatim>\<open>load_data\<close> writes.\<close>

definition table_row :: "transaction \<Rightarrow> txn_row" where
  "table_row t = to_sql_row (derive_row t)"

definition table_rows :: "transaction list \<Rightarrow> txn_row list" where
  "table_rows df = map table_row df"

text \<open>
  \<^verbatim>\<open>load_data\<close>. On a dataset without rows \<^verbatim>\<open>read_csv\<close> has no date to parse and
  leaves the timestamp column as it is, so the first \<^verbatim>\<open>.dt\<close> access
  (\<^verbatim>\<open>df["trans_date_trans_time"].dt.hour\<close>) raises and no table is written. Otherwise
  the result is the connection to the table, modelled as the rows of the table.
\<close>

definition load_data :: "transaction list \<Rightarrow> error + txn_row list" where
  "load_data df = (if df = [] then Inl NotDatetimeLike else Inr (table_rows df))"

subsection \<open>SQL values, aggregates and clauses\<close>

text \<open>
  An SQL value is an \<open>option\<close>, \<open>None\<close> being \<^verbatim>\<open>NULL\<close>. The aggregates \<^verbatim>\<open>SUM\<close>,
  \<^verbatim>\<open>AVG\<close>, \<^verbatim>\<open>MIN\<close> and \<^verbatim>\<open>MAX\<close> skip \<^verbatim>\<open>NULL\<close> and give \<^verbatim>\<open>NULL\<close> when no value is
  left; \<^verbatim>\<open>COUNT(*)\<close> counts rows and is never \<^verbatim>\<open>NULL\<close>.
\<close>

definition col :: "('r \<Rightarrow> 'a) \<Rightarrow> 'r list \<Rightarrow> 'a option list" where
  "col f rows = map (\<lambda>r. Some (f r)) rows"

definition non_null :: "'a option list \<Rightarrow> 'a list" where
  "non_null vs = map the (filter (\<lambda>v. v \<noteq> None) vs)"

definition sql_count :: "'r list \<Rightarrow> int" where
  "sql_count rows = int (length rows)"

definition sql_sum :: "'a::monoid_add option list \<Rightarrow> 'a option" where
  "sql_sum vs = (let xs = non_null vs in if xs = [] then None else Some (sum_list xs))"

definition sql_avg :: "rat option list \<Rightarrow> rat option" where
  "sql_avg vs =
     (let xs = non_null vs
      in if xs = [] then None else Some (sum_list xs / rat_of_nat (length xs)))"

definition sql_min :: "'a::linorder option list \<Rightarrow> 'a option" where
  "sql_min vs = (case non_null vs of [] \<Rightarrow> None | x # xs \<Rightarrow> Some (fold min xs x))"

definition sql_max :: "'a::linorder option list \<Rightarrow> 'a option" where
  "sql_max vs = (case non_null vs of [] \<Rightarrow> None | x # xs \<Rightarrow> Some (fold max xs x))"

text \<open>\<^verbatim>\<open>ROUND(x, 2)\<close>: to two decimals, a half away from zero; \<^verbatim>\<open>NULL\<close> stays \<^verbatim>\<open>NULL\<close>.\<close>

definition round2 :: "rat \<Rightarrow> rat" where
  "round2 q =
     (if 0 \<le> q then rat_of_int \<lfloor>q * 100 + 1 / 2\<rfloor> / 100
      else - (rat_of_int \<lfloor>- q * 100 + 1 / 2\<rfloor> / 100))"

definition sql_round2 :: "rat option \<Rightarrow> rat option" where
  "sql_round2 v = map_option round2 v"

text \<open>Division: \<^verbatim>\<open>NULL\<close> when an operand is \<^verbatim>\<open>NULL\<close> or the divisor is zero.\<close>

definition sql_div :: "rat option \<Rightarrow> rat option \<Rightarrow> rat option" where
  "sql_div a b =
     (case (a, b) of
        (Some x, Some y) \<Rightarrow> (if y = 0 then None else Some (x / y))
      | _ \<Rightarrow> None)"

text \<open>A comparison with \<^verbatim>\<open>NULL\<close> is not true, so \<^verbatim>\<open>HAVING\<close> drops the group.\<close>

definition sql_ge :: "int option \<Rightarrow> int \<Rightarrow> bool" where
  "sql_ge a b = (case a of None \<Rightarrow> False | Some x \<Rightarrow> b \<le> x)"

text \<open>\<^verbatim>\<open>ROUND(100.0 * SUM(is_fraud) / COUNT(*), 2)\<close>, the expression every report repeats.\<close>

definition rate_pct :: "txn_row list \<Rightarrow> rat option" where
  "rate_pct rows =
     sql_round2
       (sql_div (map_option (\<lambda>s. 100 * rat_of_int s) (sql_sum (col is_fraud rows)))
                (Some (rat_of_int (sql_count rows))))"

text \<open>
  \<^verbatim>\<open>GROUP BY\<close>: one group for each distinct key, holding the rows with that key in table
  order. SQL leaves the order of the groups open; SQLite produces them in ascending key
  order (\<^verbatim>\<open>NULL\<close> first), which the model follows.
\<close>

definition group_by :: "('r \<Rightarrow> 'k::linorder) \<Rightarrow> 'r list \<Rightarrow> ('k \<times> 'r list) list" where
  "group_by k rows =
     map (\<lambda>v. (v, filter (\<lambda>r. k r = v) rows)) (sort (remdups (map k rows)))"

text \<open>
  \<^verbatim>\<open>ORDER BY\<close>: ascending is the library's stable insertion sort (the reports that
  use it sort by the group key, so no two rows have the same key). Descending puts the
  greater key first, \<^verbatim>\<open>NULL\<close> being the least value and coming last. SQL leaves the
  order of rows with equal keys open; SQLite returns the rows of a descending order that
  have equal keys in the reverse of the order in which the groups were produced, and the
  model follows it: a row is inserted behind the rows with the same key.
\<close>

primrec insort_desc_key :: "('b \<Rightarrow> 'a::linorder) \<Rightarrow> 'b \<Rightarrow> 'b list \<Rightarrow> 'b list" where
  "insort_desc_key f x [] = [x]"
| "insort_desc_key f x (y # ys) =
     (if f y < f x then x # y # ys else y # insort_desc_key f x ys)"

definition order_by_desc :: "('b \<Rightarrow> 'a::linorder) \<Rightarrow> 'b list \<Rightarrow> 'b list" where
  "order_by_desc f xs = foldr (insort_desc_key f) xs []"

definition order_by_asc :: "('b \<Rightarrow> 'a::linorder) \<Rightarrow> 'b list \<Rightarrow> 'b list" where
  "order_by_asc f xs = sort_key f xs"

text \<open>\<^verbatim>\<open>LIMIT n\<close>: a negative \<open>n\<close> means no limit.\<close>

definition sql_limit :: "int \<Rightarrow> 'b list \<Rightarrow> 'b list" where
  "sql_limit n xs = (if n < 0 then xs else take (nat n) xs)"

subsection \<open>The result rows\<close>

text \<open>
  \<open>group_key\<close> is the column the query groups by (\<^verbatim>\<open>category\<close>, \<^verbatim>\<open>txn_hour\<close>, ...).
  The columns of the overview carry the prefix \<open>ov_\<close>; of the repeat-fraud report,
  \<^verbatim>\<open>cc_num\<close> and \<^verbatim>\<open>total_fraud_amount\<close> are \<open>card_cc_num\<close> and
  \<open>card_total_fraud_amount\<close>.
\<close>

record overview_row =
  ov_total_txns :: int
  ov_fraud_count :: "int option"
  ov_fraud_rate_pct :: "rat option"
  ov_avg_amount :: "rat option"
  ov_total_fraud_amount :: "rat option"

record 'k rate_row =
  group_key :: 'k
  total_txns :: int
  fraud_txns :: "int option"
  fraud_rate_pct :: "rat option"

record 'k category_row = "'k rate_row" +
  avg_fraud_amt :: "rat option"

record 'k merchant_row = "'k rate_row" +
  total_fraud_amount :: "rat option"

record card_row =
  card_cc_num :: int
  fraud_count :: int
  card_total_fraud_amount :: "rat option"
  first_fraud :: "int option"
  last_fraud :: "int option"

subsection \<open>The queries\<close>

definition fraud_overview_query :: "txn_row list \<Rightarrow> overview_row" where
  "fraud_overview_query rows =
     \<lparr>ov_total_txns = sql_count rows,
      ov_fraud_count = sql_sum (col is_fraud rows),
      ov_fraud_rate_pct = rate_pct rows,
      ov_avg_amount = sql_round2 (sql_avg (col amt rows)),
      ov_total_fraud_amount =
        sql_round2 (sql_sum (map (\<lambda>r. if is_fraud r = 1 then Some (amt r) else Some 0) rows))\<rparr>"

text \<open>
  \<^verbatim>\<open>fraud_overview\<close> takes the single row of the query and prints it, converting
  \<^verbatim>\<open>total_txns\<close> and \<^verbatim>\<open>fraud_count\<close> with \<^verbatim>\<open>int(...)\<close>, which raises on a missing
  value. The result of the model is the row that is printed.
\<close>

definition fraud_overview :: "txn_row list \<Rightarrow> error + overview_row" where
  "fraud_overview rows =
     (let result = fraud_overview_query rows
      in case ov_fraud_count result of
           None \<Rightarrow> Inl IntConversionError
         | Some c \<Rightarrow> Inr result)"

definition rate_stats :: "'k \<times> txn_row list \<Rightarrow> 'k rate_row" where
  "rate_stats kg =
     (case kg of (k, g) \<Rightarrow>
        \<lparr>group_key = k,
         total_txns = sql_count g,
         fraud_txns = sql_sum (col is_fraud g),
         fraud_rate_pct = rate_pct g\<rparr>)"

definition fraud_by_category :: "txn_row list \<Rightarrow> string category_row list" where
  "fraud_by_category rows =
     order_by_desc fraud_rate_pct
       (map (\<lambda>(k, g).
               \<lparr>group_key = k,
                total_txns = sql_count g,
                fraud_txns = sql_sum (col is_fraud g),
                fraud_rate_pct = rate_pct g,
                avg_fraud_amt =
                  sql_round2
                    (sql_avg (map (\<lambda>r. if is_fraud r = 1 then Some (amt r) else None) g))\<rparr>)
          (group_by category rows))"

definition fraud_by_hour :: "txn_row list \<Rightarrow> int rate_row list" where
  "fraud_by_hour rows = order_by_asc group_key (map rate_stats (group_by txn_hour rows))"

definition fraud_by_day_of_week :: "txn_row list \<Rightarrow> int rate_row list" where
  "fraud_by_day_of_week rows =
     order_by_asc group_key (map rate_stats (group_by txn_day_of_week rows))"

definition fraud_by_amount_bucket :: "txn_row list \<Rightarrow> string option rate_row list" where
  "fraud_by_amount_bucket rows =
     order_by_desc fraud_rate_pct (map rate_stats (group_by amount_bucket rows))"

definition fraud_by_state :: "txn_row list \<Rightarrow> int \<Rightarrow> string rate_row list" where
  "fraud_by_state rows n =
     sql_limit n (order_by_desc fraud_txns (map rate_stats (group_by state rows)))"

definition fraud_by_gender :: "txn_row list \<Rightarrow> string rate_row list" where
  "fraud_by_gender rows = map rate_stats (group_by gender rows)"

definition fraud_by_age_group :: "txn_row list \<Rightarrow> string option rate_row list" where
  "fraud_by_age_group rows =
     order_by_desc fraud_rate_pct
       (map rate_stats (group_by age_group (filter (\<lambda>r. age_group r \<noteq> None) rows)))"

definition fraud_by_city_size :: "txn_row list \<Rightarrow> string option rate_row list" where
  "fraud_by_city_size rows =
     order_by_desc fraud_rate_pct
       (map rate_stats (group_by city_size (filter (\<lambda>r. city_size r \<noteq> None) rows)))"

definition repeat_fraud_cards :: "txn_row list \<Rightarrow> card_row list" where
  "repeat_fraud_cards rows =
     sql_limit 20
       (order_by_desc fraud_count
          (map (\<lambda>(k, g).
                  \<lparr>card_cc_num = k,
                   fraud_count = sql_count g,
                   card_total_fraud_amount = sql_round2 (sql_sum (col amt g)),
                   first_fraud = sql_min (col trans_date_trans_time g),
                   last_fraud = sql_max (col trans_date_trans_time g)\<rparr>)
             (filter (\<lambda>(k, g). 3 \<le> sql_count g)
                (group_by cc_num (filter (\<lambda>r. is_fraud r = 1) rows)))))"

definition high_risk_merchants :: "txn_row list \<Rightarrow> (string \<times> string) merchant_row list" where
  "high_risk_merchants rows =
     sql_limit 20
       (order_by_desc fraud_rate_pct
          (map (\<lambda>(k, g).
                  \<lparr>group_key = k,
                   total_txns = sql_count g,
                   fraud_txns = sql_sum (col is_fraud g),
                   fraud_rate_pct = rate_pct g,
                   total_fraud_amount =
                     sql_round2
                       (sql_sum (map (\<lambda>r. if is_fraud r = 1 then Some (amt r) else Some 0) g))\<rparr>)
             (filter (\<lambda>(k, g). 20 \<le> sql_count g \<and> sql_ge (sql_sum (col is_fraud g)) 3)
                (group_by (\<lambda>r. (merchant r, category r)) rows))))"

definition fraud_trend_monthly :: "txn_row list \<Rightarrow> string rate_row list" where
  "fraud_trend_monthly rows =
     order_by_asc group_key (map rate_stats (group_by txn_month rows))"

subsection \<open>The run\<close>

text \<open>
  \<^verbatim>\<open>main\<close> loads the data, prints the overview and computes the eleven reports, each
  with its default arguments. An exception ends the run. The charts and the export that
  follow take the reports as they are and are not modelled.
\<close>

record analysis =
  df_overview :: overview_row
  df_cat :: "string category_row list"
  df_hour :: "int rate_row list"
  df_dow :: "int rate_row list"
  df_amt :: "string option rate_row list"
  df_state :: "string rate_row list"
  df_gender :: "string rate_row list"
  df_age :: "string option rate_row list"
  df_city :: "string option rate_row list"
  df_repeat :: "card_row list"
  df_merchants :: "(string \<times> string) merchant_row list"
  df_trend :: "string rate_row list"

definition main :: "transaction list \<Rightarrow> error + analysis" where
  "main df =
     (case load_data df of
        Inl e \<Rightarrow> Inl e
      | Inr conn \<Rightarrow>
          (case fraud_overview conn of
             Inl e \<Rightarrow> Inl e
           | Inr ov \<Rightarrow>
               Inr \<lparr>df_overview = ov,
                    df_cat = fraud_by_category conn,
                    df_hour = fraud_by_hour conn,
                    df_dow = fraud_by_day_of_week conn,
                    df_amt = fraud_by_amount_bucket conn,
                    df_state = fraud_by_state conn 15,
                    df_gender = fraud_by_gender conn,
                    df_age = fraud_by_age_group conn,
                    df_city = fraud_by_city_size conn,
                    df_repeat = repeat_fraud_cards conn,
                    df_merchants = high_risk_merchants conn,
                    df_trend = fraud_trend_monthly conn\<rparr>))"

subsection \<open>Notions used in the statements\<close>

text \<open>
  The fraud rows of a group: the rows that satisfy the grouping condition and have
  \<^verbatim>\<open>is_fraud = 1\<close>. The mean of a list of amounts.
\<close>

definition fraud_rows :: "(txn_row \<Rightarrow> bool) \<Rightarrow> txn_row list \<Rightarrow> txn_row list" where
  "fraud_rows P rows = filter (\<lambda>r. P r \<and> is_fraud r = 1) rows"

definition mean :: "rat list \<Rightarrow> rat" where
  "mean xs = sum_list xs / rat_of_nat (length xs)"

subsection \<open>Sample inputs\<close>

text \<open>
  A customer born on 1970-01-01 who pays 50 on 1995-01-02 (9132 days later, 25 years of
  age), and variations of that row.
\<close>

definition base_txn :: transaction where
  "base_txn =
     \<lparr>trans_date_trans_time = 9132 * ns_per_day, cc_num = 1, merchant = ''m'',
      category = ''c'', amt = 50, gender = ''F'', state = ''NY'', city_pop = 5000,
      dob = 0, is_fraud = 0\<rparr>"

definition txn_amt_zero :: transaction where
  "txn_amt_zero = base_txn\<lparr>amt := 0\<rparr>"

definition txn_amt_100 :: transaction where
  "txn_amt_100 = base_txn\<lparr>amt := 100\<rparr>"

definition txn_amt_500 :: transaction where
  "txn_amt_500 = base_txn\<lparr>amt := 500\<rparr>"

definition txn_amt_1000 :: transaction where
  "txn_amt_1000 = base_txn\<lparr>amt := 1000\<rparr>"

definition txn_city_10000 :: transaction where
  "txn_city_10000 = base_txn\<lparr>city_pop := 10000\<rparr>"

definition txn_age_17 :: transaction where
  "txn_age_17 = base_txn\<lparr>trans_date_trans_time := 6210 * ns_per_day\<rparr>"

definition txn_age_120 :: transaction where
  "txn_age_120 = base_txn\<lparr>trans_date_trans_time := 43830 * ns_per_day\<rparr>"

definition txn_age_121 :: transaction where
  "txn_age_121 = base_txn\<lparr>trans_date_trans_time := 44196 * ns_per_day\<rparr>"

text \<open>A date of birth one day after the transaction.\<close>

definition txn_born_later :: transaction where
  "txn_born_later = base_txn\<lparr>trans_date_trans_time := 0, dob := ns_per_day\<rparr>"

text \<open>
  Card 1 with three fraud rows (amounts 10, 20, 30; 20, 10 and 30 seconds after the
  epoch) and one large honest payment after 5 seconds; card 2 with two fraud rows.
\<close>

definition scenario_cards :: "transaction list" where
  "scenario_cards =
     [base_txn\<lparr>trans_date_trans_time := 20000000000, amt := 10, is_fraud := 1\<rparr>,
      base_txn\<lparr>trans_date_trans_time := 5000000000, amt := 1000\<rparr>,
      base_txn\<lparr>trans_date_trans_time := 10000000000, amt := 20, is_fraud := 1\<rparr>,
      base_txn\<lparr>trans_date_trans_time := 30000000000, amt := 30, is_fraud := 1\<rparr>,
      base_txn\<lparr>cc_num := 2, is_fraud := 1\<rparr>,
      base_txn\<lparr>cc_num := 2, is_fraud := 1\<rparr>]"

text \<open>One merchant with twenty payments, three of them fraud.\<close>

definition scenario_merchant :: "transaction list" where
  "scenario_merchant =
     replicate 17 base_txn @ replicate 3 (base_txn\<lparr>is_fraud := 1, amt := 7\<rparr>)"

section \<open>Properties of the derived columns\<close>

subsection \<open>Auxiliary facts\<close>

lemma cut_age_cases:
  "cut_age a =
     (if a \<le> 0 then None
      else if a \<le> 25 then Some ''18-24''
      else if a \<le> 35 then Some ''25-34''
      else if a \<le> 45 then Some ''35-44''
      else if a \<le> 55 then Some ''45-54''
      else if a \<le> 65 then Some ''55-64''
      else if a \<le> 120 then Some ''65+''
      else None)"
  by (simp add: cut_age_def pd_cut_def searchsorted_left_def edge_less_def age_bins_def
      age_labels_def)

lemma cut_amount_cases:
  "cut_amount a =
     (if a \<le> 0 then None
      else if a \<le> 100 then Some ''0-100''
      else if a \<le> 500 then Some ''100-500''
      else if a \<le> 1000 then Some ''500-1000''
      else Some ''1000+'')"
  by (simp add: cut_amount_def pd_cut_def searchsorted_left_def edge_less_def amount_bins_def
      amount_labels_def)

lemma cut_city_cases:
  "cut_city p =
     (if p \<le> 0 then None
      else if p \<le> 10000 then Some ''Rural (<10K)''
      else if p \<le> 100000 then Some ''Small (10K-100K)''
      else if p \<le> 500000 then Some ''Mid (100K-500K)''
      else Some ''Large (500K+)'')"
  by (simp add: cut_city_def pd_cut_def searchsorted_left_def edge_less_def city_bins_def
      city_labels_def)

lemma derive_row_derived:
  "age (derive_row t) = age_years (trans_date_trans_time t) (dob t)"
  "age_group (derive_row t) = cut_age (age_years (trans_date_trans_time t) (dob t))"
  "amount_bucket (derive_row t) = cut_amount (amt t)"
  "city_size (derive_row t) = cut_city (city_pop t)"
  "txn_hour (derive_row t) = dt_hour (trans_date_trans_time t)"
  "txn_day_of_week (derive_row t) = dt_dayofweek (trans_date_trans_time t)"
  "txn_month (derive_row t) = dt_month (trans_date_trans_time t)"
  by (simp_all add: derive_row_def Let_def transaction.defs txn_row.defs)

lemma derive_row_raw:
  "trans_date_trans_time (derive_row t) = trans_date_trans_time t"
  "cc_num (derive_row t) = cc_num t"
  "merchant (derive_row t) = merchant t"
  "category (derive_row t) = category t"
  "amt (derive_row t) = amt t"
  "gender (derive_row t) = gender t"
  "state (derive_row t) = state t"
  "city_pop (derive_row t) = city_pop t"
  "dob (derive_row t) = dob t"
  "is_fraud (derive_row t) = is_fraud t"
  by (simp_all add: derive_row_def Let_def transaction.defs txn_row.defs)

lemma elapsed_days_nonneg: "0 \<le> elapsed_days ts birth \<longleftrightarrow> birth \<le> ts"
  by (simp add: elapsed_days_def ns_per_day_def pos_imp_zdiv_nonneg_iff)

text \<open>The age in integer arithmetic: 365.25 days are 1461 quarter days.\<close>

lemma age_years_int:
  "age_years ts birth =
     (let d = elapsed_days ts birth
      in if 0 \<le> d then (4 * d) div 1461 else - ((4 * (- d)) div 1461))"
proof -
  define d where "d = elapsed_days ts birth"
  have q: "rat_of_int d / 365.25 = rat_of_int (4 * d) / rat_of_int 1461"
    by simp
  have fl: "\<lfloor>rat_of_int d / 365.25\<rfloor> = (4 * d) div 1461"
    unfolding q by (rule floor_divide_of_int_eq)
  have q': "- (rat_of_int d / 365.25) = rat_of_int (4 * (- d)) / rat_of_int 1461"
    by simp
  have ce: "\<lceil>rat_of_int d / 365.25\<rceil> = - ((4 * (- d)) div 1461)"
    unfolding ceiling_def q' by (simp only: floor_divide_of_int_eq)
  have sg: "(0 \<le> rat_of_int d / 365.25) = (0 \<le> d)"
    by (simp add: zero_le_divide_iff)
  show ?thesis
    unfolding age_years_def astype_int_def Let_def d_def [symmetric] sg fl ce ..
qed

lemma sample_ages:
  "age (derive_row base_txn) = 25"
  "age (derive_row txn_age_17) = 17"
  "age (derive_row txn_age_120) = 120"
  "age (derive_row txn_age_121) = 121"
  "age (derive_row txn_born_later) = 0"
  by (simp_all add: derive_row_derived age_years_int elapsed_days_def ns_per_day_def
      base_txn_def txn_age_17_def txn_age_120_def txn_age_121_def txn_born_later_def)

subsection \<open>Age\<close>

text \<open>
  C9 (as the claim states it, refuted). The claim takes the age to be the floor of
  elapsed days / 365.25 for every row. For a date of birth one day after the transaction
  the elapsed days are -1 and the quotient is about -0.0027: the code gives 0, the floor
  is -1.
\<close>

theorem age_floor_counterexample:
  "age (derive_row txn_born_later)
     \<noteq> \<lfloor>rat_of_int (elapsed_days (trans_date_trans_time txn_born_later) (dob txn_born_later))
          / 365.25\<rfloor>"
  by (simp add: sample_ages) code_simp

text \<open>
  C9 (amended). The derived age is elapsed days / 365.25 with the fractional part dropped
  (truncation toward zero). When the date of birth is not after the transaction
  timestamp this is the floor of the quotient; when it is after, it is the ceiling.
\<close>

theorem age_truncates_toward_zero:
  "(dob t \<le> trans_date_trans_time t \<longrightarrow>
      age (derive_row t)
        = \<lfloor>rat_of_int (elapsed_days (trans_date_trans_time t) (dob t)) / 365.25\<rfloor>) \<and>
   (trans_date_trans_time t < dob t \<longrightarrow>
      age (derive_row t)
        = \<lceil>rat_of_int (elapsed_days (trans_date_trans_time t) (dob t)) / 365.25\<rceil>)"
proof -
  let ?q = "rat_of_int (elapsed_days (trans_date_trans_time t) (dob t)) / 365.25"
  have sg: "(0 \<le> ?q) = (dob t \<le> trans_date_trans_time t)"
    by (simp add: zero_le_divide_iff elapsed_days_nonneg)
  have a: "age (derive_row t) = astype_int ?q"
    by (simp only: derive_row_derived age_years_def)
  show ?thesis
    unfolding a astype_int_def sg by auto
qed

theorem age_truncates_toward_zero_witness:
  "dob base_txn \<le> trans_date_trans_time base_txn \<and>
   age (derive_row base_txn) = 25 \<and>
   \<lfloor>rat_of_int (elapsed_days (trans_date_trans_time base_txn) (dob base_txn)) / 365.25\<rfloor> = 25 \<and>
   trans_date_trans_time txn_born_later < dob txn_born_later \<and>
   age (derive_row txn_born_later) = 0 \<and>
   \<lceil>rat_of_int (elapsed_days (trans_date_trans_time txn_born_later) (dob txn_born_later))
      / 365.25\<rceil> = 0"
proof -
  have h1: "dob base_txn \<le> trans_date_trans_time base_txn"
    by (simp add: base_txn_def ns_per_day_def)
  have h2: "trans_date_trans_time txn_born_later < dob txn_born_later"
    by (simp add: base_txn_def txn_born_later_def ns_per_day_def)
  from age_truncates_toward_zero [of base_txn] h1
  have f: "\<lfloor>rat_of_int (elapsed_days (trans_date_trans_time base_txn) (dob base_txn)) / 365.25\<rfloor>
             = 25"
    by (simp add: sample_ages)
  from age_truncates_toward_zero [of txn_born_later] h2
  have c: "\<lceil>rat_of_int (elapsed_days (trans_date_trans_time txn_born_later) (dob txn_born_later))
             / 365.25\<rceil> = 0"
    by (simp add: sample_ages)
  from h1 h2 f c show ?thesis
    by (simp add: sample_ages)
qed

subsection \<open>Age group\<close>

text \<open>
  C2 (the code at the failing input). The sample customer is exactly 25 at the time of
  the transaction. The first bin of \<^verbatim>\<open>pd.cut\<close> is the interval (0, 25], closed on the
  right, so the row receives the label \<^verbatim>\<open>18-24\<close> and not \<^verbatim>\<open>25-34\<close>.
\<close>

theorem age_25_is_labelled_18_24:
  "age (derive_row base_txn) = 25 \<and> age_group (derive_row base_txn) = Some ''18-24''"
  using sample_ages(1) by (simp add: derive_row_derived cut_age_cases)

subsection \<open>Amount bucket and city size\<close>

text \<open>
  C3 (as the claim states it, refuted). The claim puts an amount of 0 into the bucket
  \<^verbatim>\<open>0-100\<close>; the first bin is (0, 100], open at 0, and the row gets no bucket.
\<close>

theorem amount_zero_counterexample:
  "amt txn_amt_zero = 0 \<and> amount_bucket (derive_row txn_amt_zero) = None"
  by (simp add: derive_row_derived cut_amount_cases txn_amt_zero_def base_txn_def)

text \<open>
  C3 (amended). For every amount above 0 exactly one of the four buckets is assigned,
  and the four ranges (0, 100], (100, 500], (500, 1000], (1000, \<open>\<infinity>\<close>) neither overlap nor
  leave a gap; an amount of exactly 0 gets no bucket.
\<close>

theorem amount_bucket_total_above_zero:
  "(0 < amt t \<longrightarrow>
      (\<exists>!l. l \<in> set amount_labels \<and> amount_bucket (derive_row t) = Some l) \<and>
      (amount_bucket (derive_row t) = Some ''0-100'' \<longleftrightarrow> amt t \<le> 100) \<and>
      (amount_bucket (derive_row t) = Some ''100-500'' \<longleftrightarrow> 100 < amt t \<and> amt t \<le> 500) \<and>
      (amount_bucket (derive_row t) = Some ''500-1000'' \<longleftrightarrow> 500 < amt t \<and> amt t \<le> 1000) \<and>
      (amount_bucket (derive_row t) = Some ''1000+'' \<longleftrightarrow> 1000 < amt t)) \<and>
   (amt t = 0 \<longrightarrow> amount_bucket (derive_row t) = None)"
  by (auto simp add: derive_row_derived cut_amount_cases amount_labels_def)

theorem amount_bucket_total_above_zero_witness:
  "0 < amt base_txn \<and> amt base_txn \<le> 100 \<and>
   amount_bucket (derive_row base_txn) = Some ''0-100'' \<and>
   amt txn_amt_zero = 0 \<and> amount_bucket (derive_row txn_amt_zero) = None"
proof -
  have h: "0 < amt base_txn" "amt base_txn \<le> 100"
    by (simp_all add: base_txn_def)
  have z: "amt txn_amt_zero = 0"
    by (simp add: txn_amt_zero_def)
  from amount_bucket_total_above_zero [of base_txn] h
  have b: "amount_bucket (derive_row base_txn) = Some ''0-100''"
    by blast
  from amount_bucket_total_above_zero [of txn_amt_zero] z
  have n: "amount_bucket (derive_row txn_amt_zero) = None"
    by blast
  from h z b n show ?thesis
    by simp
qed

text \<open>
  C4 (as the claim states it, refuted). An amount of exactly 100 gets the bucket
  \<^verbatim>\<open>0-100\<close>, not \<^verbatim>\<open>100-500\<close>, and a city population of exactly 10000 gets
  \<^verbatim>\<open>Rural (<10K)\<close>, not \<^verbatim>\<open>Small (10K-100K)\<close>.
\<close>

theorem edge_value_counterexample:
  "amt txn_amt_100 = 100 \<and>
   amount_bucket (derive_row txn_amt_100) = Some ''0-100'' \<and>
   city_pop txn_city_10000 = 10000 \<and>
   city_size (derive_row txn_city_10000) = Some ''Rural (<10K)''"
  by (simp add: derive_row_derived cut_amount_cases cut_city_cases txn_amt_100_def
      txn_city_10000_def base_txn_def)

text \<open>
  C4 (amended). An amount exactly on an interior bin edge gets the bin whose upper bound
  is that edge: 100 is in \<^verbatim>\<open>0-100\<close>, 500 in \<^verbatim>\<open>100-500\<close>, 1000 in \<^verbatim>\<open>500-1000\<close>.
\<close>

theorem amount_edge_in_lower_bin:
  "(amt t = 100 \<longrightarrow> amount_bucket (derive_row t) = Some ''0-100'') \<and>
   (amt t = 500 \<longrightarrow> amount_bucket (derive_row t) = Some ''100-500'') \<and>
   (amt t = 1000 \<longrightarrow> amount_bucket (derive_row t) = Some ''500-1000'')"
  by (simp add: derive_row_derived cut_amount_cases)

theorem amount_edge_in_lower_bin_witness:
  "amt txn_amt_100 = 100 \<and> amount_bucket (derive_row txn_amt_100) = Some ''0-100'' \<and>
   amt txn_amt_500 = 500 \<and> amount_bucket (derive_row txn_amt_500) = Some ''100-500'' \<and>
   amt txn_amt_1000 = 1000 \<and> amount_bucket (derive_row txn_amt_1000) = Some ''500-1000''"
proof -
  have h: "amt txn_amt_100 = 100" "amt txn_amt_500 = 500" "amt txn_amt_1000 = 1000"
    by (simp_all add: txn_amt_100_def txn_amt_500_def txn_amt_1000_def)
  from amount_edge_in_lower_bin [of txn_amt_100] h(1)
  have a: "amount_bucket (derive_row txn_amt_100) = Some ''0-100''"
    by blast
  from amount_edge_in_lower_bin [of txn_amt_500] h(2)
  have b: "amount_bucket (derive_row txn_amt_500) = Some ''100-500''"
    by blast
  from amount_edge_in_lower_bin [of txn_amt_1000] h(3)
  have c: "amount_bucket (derive_row txn_amt_1000) = Some ''500-1000''"
    by blast
  from h a b c show ?thesis
    by simp
qed

section \<open>Properties of the reports\<close>

subsection \<open>Clauses and aggregates\<close>

lemma set_insort_desc_key: "set (insort_desc_key f x xs) = insert x (set xs)"
  by (induction xs) auto

lemma set_order_by_desc: "set (order_by_desc f xs) = set xs"
  by (induction xs) (simp_all add: order_by_desc_def set_insort_desc_key)

lemma in_sql_limitD: "x \<in> set (sql_limit n xs) \<Longrightarrow> x \<in> set xs"
  by (auto simp add: sql_limit_def dest: in_set_takeD split: if_splits)

lemma group_by_Nil: "group_by k [] = []"
  by (simp add: group_by_def)

lemma group_by_member:
  assumes "(v, g) \<in> set (group_by k rows)"
  shows "g = filter (\<lambda>r. k r = v) rows" and "g \<noteq> []"
proof -
  from assms show g: "g = filter (\<lambda>r. k r = v) rows"
    by (auto simp add: group_by_def)
  from assms have "v \<in> k ` set rows"
    by (auto simp add: group_by_def)
  then obtain r where "r \<in> set rows" "k r = v"
    by auto
  then show "g \<noteq> []"
    unfolding g by (auto simp add: filter_empty_conv)
qed

lemma non_null_col: "non_null (col f rows) = map f rows"
  by (induction rows) (simp_all add: non_null_def col_def)

lemma non_null_when: "non_null (map (\<lambda>r. if P r then Some (f r) else None) rows) = map f (filter P rows)"
  by (induction rows) (simp_all add: non_null_def)

lemma non_null_when_else:
  "non_null (map (\<lambda>r. if P r then Some (f r) else Some d) rows)
     = map (\<lambda>r. if P r then f r else d) rows"
  by (induction rows) (simp_all add: non_null_def)

lemma sum_list_when_else_zero:
  "sum_list (map (\<lambda>r. if P r then f r else (0::rat)) rows) = sum_list (map f (filter P rows))"
  by (induction rows) simp_all

lemma sql_sum_col: "sql_sum (col f rows) = (if rows = [] then None else Some (sum_list (map f rows)))"
  by (simp add: sql_sum_def non_null_col)

lemma sql_sum_when_else_zero:
  "sql_sum (map (\<lambda>r. if P r then Some (f r) else Some (0::rat)) rows)
     = (if rows = [] then None else Some (sum_list (map f (filter P rows))))"
  by (simp add: sql_sum_def non_null_when_else sum_list_when_else_zero)

lemma sql_avg_when:
  "sql_avg (map (\<lambda>r. if P r then Some (f r) else None) rows)
     = (if filter P rows = [] then None else Some (mean (map f (filter P rows))))"
  by (simp add: sql_avg_def non_null_when mean_def)

lemma sql_min_col: "rows \<noteq> [] \<Longrightarrow> sql_min (col f rows) = Some (Min (f ` set rows))"
  by (cases rows) (simp_all add: sql_min_def non_null_col Min.set_eq_fold [symmetric])

lemma sql_max_col: "rows \<noteq> [] \<Longrightarrow> sql_max (col f rows) = Some (Max (f ` set rows))"
  by (cases rows) (simp_all add: sql_max_def non_null_col Max.set_eq_fold [symmetric])

lemma round2_zero: "round2 0 = 0"
  by (simp add: round2_def floor_eq_iff)

lemma fraud_rows_of_filter: "filter P (filter (\<lambda>r. is_fraud r = 1) rows) = fraud_rows P rows"
  by (simp add: fraud_rows_def conj_commute)

subsection \<open>The rows of each report, traced back to their group\<close>

lemma repeat_fraud_cards_row:
  assumes "c \<in> set (repeat_fraud_cards rows)"
  defines "g \<equiv> fraud_rows (\<lambda>r. cc_num r = card_cc_num c) rows"
  shows "g \<noteq> []" and "3 \<le> sql_count g" and "fraud_count c = sql_count g"
    and "card_total_fraud_amount c = sql_round2 (sql_sum (col amt g))"
    and "first_fraud c = sql_min (col trans_date_trans_time g)"
    and "last_fraud c = sql_max (col trans_date_trans_time g)"
proof -
  let ?fr = "filter (\<lambda>r. is_fraud r = 1) rows"
  from assms(1) obtain k h where
    m: "(k, h) \<in> set (group_by cc_num ?fr)" and h3: "3 \<le> sql_count h" and
    c: "c = \<lparr>card_cc_num = k, fraud_count = sql_count h,
              card_total_fraud_amount = sql_round2 (sql_sum (col amt h)),
              first_fraud = sql_min (col trans_date_trans_time h),
              last_fraud = sql_max (col trans_date_trans_time h)\<rparr>"
    unfolding repeat_fraud_cards_def
    by (auto dest!: in_sql_limitD simp add: set_order_by_desc)
  from c have k: "k = card_cc_num c"
    by simp
  from group_by_member [OF m] have h: "h = g" and ne: "h \<noteq> []"
    unfolding g_def k fraud_rows_of_filter by blast+
  from ne h show "g \<noteq> []"
    by simp
  from h3 h show "3 \<le> sql_count g"
    by simp
  from c h show "fraud_count c = sql_count g"
    by simp
  from c h show "card_total_fraud_amount c = sql_round2 (sql_sum (col amt g))"
    by simp
  from c h show "first_fraud c = sql_min (col trans_date_trans_time g)"
    by simp
  from c h show "last_fraud c = sql_max (col trans_date_trans_time g)"
    by simp
qed

lemma high_risk_merchants_row:
  assumes "m \<in> set (high_risk_merchants rows)"
  defines "g \<equiv> filter (\<lambda>r. (merchant r, category r) = group_key m) rows"
  shows "g \<noteq> []" and "20 \<le> sql_count g" and "sql_ge (sql_sum (col is_fraud g)) 3"
    and "total_txns m = sql_count g" and "fraud_txns m = sql_sum (col is_fraud g)"
    and "total_fraud_amount m
           = sql_round2 (sql_sum (map (\<lambda>r. if is_fraud r = 1 then Some (amt r) else Some 0) g))"
proof -
  from assms(1) obtain k h where
    mem: "(k, h) \<in> set (group_by (\<lambda>r. (merchant r, category r)) rows)" and
    hv: "20 \<le> sql_count h" "sql_ge (sql_sum (col is_fraud h)) 3" and
    c: "m = \<lparr>group_key = k, total_txns = sql_count h,
              fraud_txns = sql_sum (col is_fraud h), fraud_rate_pct = rate_pct h,
              total_fraud_amount =
                sql_round2
                  (sql_sum (map (\<lambda>r. if is_fraud r = 1 then Some (amt r) else Some 0) h))\<rparr>"
    unfolding high_risk_merchants_def
    by (auto dest!: in_sql_limitD simp add: set_order_by_desc)
  from c have k: "k = group_key m"
    by simp
  from group_by_member [OF mem] have h: "h = g" and ne: "h \<noteq> []"
    by (simp_all add: g_def k)
  from ne h show "g \<noteq> []"
    by simp
  from hv h show "20 \<le> sql_count g" and "sql_ge (sql_sum (col is_fraud g)) 3"
    by simp_all
  from c h show "total_txns m = sql_count g" and "fraud_txns m = sql_sum (col is_fraud g)"
    by simp_all
  from c h show "total_fraud_amount m
      = sql_round2 (sql_sum (map (\<lambda>r. if is_fraud r = 1 then Some (amt r) else Some 0) g))"
    by simp
qed

lemma fraud_by_category_row:
  assumes "m \<in> set (fraud_by_category rows)"
  defines "g \<equiv> filter (\<lambda>r. category r = group_key m) rows"
  shows "g \<noteq> []"
    and "avg_fraud_amt m
           = sql_round2 (sql_avg (map (\<lambda>r. if is_fraud r = 1 then Some (amt r) else None) g))"
proof -
  from assms(1) obtain k h where
    mem: "(k, h) \<in> set (group_by category rows)" and
    c: "m = \<lparr>group_key = k, total_txns = sql_count h,
              fraud_txns = sql_sum (col is_fraud h), fraud_rate_pct = rate_pct h,
              avg_fraud_amt =
                sql_round2
                  (sql_avg (map (\<lambda>r. if is_fraud r = 1 then Some (amt r) else None) h))\<rparr>"
    unfolding fraud_by_category_def
    by (auto simp add: set_order_by_desc)
  from c have k: "k = group_key m"
    by simp
  from group_by_member [OF mem] have h: "h = g" and ne: "h \<noteq> []"
    by (simp_all add: g_def k)
  from ne h show "g \<noteq> []"
    by simp
  from c h show "avg_fraud_amt m
      = sql_round2 (sql_avg (map (\<lambda>r. if is_fraud r = 1 then Some (amt r) else None) g))"
    by simp
qed

lemma to_sql_row_derived:
  "txn_hour (to_sql_row r) = txn_hour r"
  "txn_day_of_week (to_sql_row r) = txn_day_of_week r"
  "txn_month (to_sql_row r) = txn_month r"
  "age (to_sql_row r) = age r"
  "age_group (to_sql_row r) = age_group r"
  "amount_bucket (to_sql_row r) = amount_bucket r"
  "city_size (to_sql_row r) = city_size r"
  "is_fraud (to_sql_row r) = is_fraud r"
  "amt (to_sql_row r) = amt r"
  by (simp_all add: to_sql_row_def)

lemma load_data_Inr: "load_data df = Inr rows \<longleftrightarrow> df \<noteq> [] \<and> rows = table_rows df"
  by (auto simp add: load_data_def)

lemma fraud_overview_Inr:
  "fraud_overview rows = Inr ov \<longleftrightarrow> rows \<noteq> [] \<and> ov = fraud_overview_query rows"
proof -
  have "ov_fraud_count (fraud_overview_query rows)
      = (if rows = [] then None else Some (sum_list (map is_fraud rows)))"
    by (simp add: fraud_overview_query_def sql_sum_col)
  then show ?thesis
    by (auto simp add: fraud_overview_def Let_def)
qed

text \<open>
  \<^verbatim>\<open>ROUND(x, 2)\<close> gives a number of hundredths that is at most half a hundredth away
  from \<open>x\<close>.
\<close>

lemma round2_two_decimals:
  "\<exists>k. round2 q = rat_of_int k / 100" and "\<bar>round2 q - q\<bar> \<le> 1 / 200"
proof -
  show "\<exists>k. round2 q = rat_of_int k / 100"
    by (cases "0 \<le> q") (auto simp add: round2_def intro: exI [of _ "- \<lfloor>- q * 100 + 1 / 2\<rfloor>"])
  have near: "\<bar>rat_of_int \<lfloor>x + 1 / 2\<rfloor> - x\<bar> \<le> 1 / 2" for x :: rat
    by linarith
  show "\<bar>round2 q - q\<bar> \<le> 1 / 200"
  proof (cases "0 \<le> q")
    case True
    define k where "k = rat_of_int \<lfloor>q * 100 + 1 / 2\<rfloor>"
    from near [of "q * 100"] have "\<bar>k - q * 100\<bar> \<le> 1 / 2"
      by (simp add: k_def)
    then have "\<bar>k / 100 - q\<bar> \<le> 1 / 200"
      by linarith
    with True show ?thesis
      by (simp add: round2_def k_def)
  next
    case False
    define k where "k = rat_of_int \<lfloor>- q * 100 + 1 / 2\<rfloor>"
    from near [of "- q * 100"] have "\<bar>k - (- q * 100)\<bar> \<le> 1 / 2"
      by (simp add: k_def)
    then have "\<bar>- (k / 100) - q\<bar> \<le> 1 / 200"
      by linarith
    with False show ?thesis
      by (simp add: round2_def k_def)
  qed
qed

lemma sample_tables:
  "load_data scenario_cards = Inr (table_rows scenario_cards)"
  "load_data scenario_merchant = Inr (table_rows scenario_merchant)"
  "load_data [base_txn] = Inr (table_rows [base_txn])"
  "load_data [txn_age_17] = Inr (table_rows [txn_age_17])"
  "load_data [base_txn, txn_age_121] = Inr (table_rows [base_txn, txn_age_121])"
  "load_data [txn_amt_zero, base_txn] = Inr (table_rows [txn_amt_zero, base_txn])"
  by (simp_all add: load_data_def scenario_cards_def scenario_merchant_def)

lemma sample_reports:
  "repeat_fraud_cards (table_rows scenario_cards) =
     [\<lparr>card_cc_num = 1, fraud_count = 3, card_total_fraud_amount = Some 60,
       first_fraud = Some 10000000000, last_fraud = Some 30000000000\<rparr>]"
  "high_risk_merchants (table_rows scenario_merchant) =
     [\<lparr>group_key = (''m'', ''c''), total_txns = 20, fraud_txns = Some 3,
       fraud_rate_pct = Some 15, total_fraud_amount = Some 21\<rparr>]"
  "fraud_by_category (table_rows scenario_cards) =
     [\<lparr>group_key = ''c'', total_txns = 6, fraud_txns = Some 5,
       fraud_rate_pct = Some (8333 / 100), avg_fraud_amt = Some 32\<rparr>]"
  by code_simp+

subsection \<open>Thresholds\<close>

text \<open>
  C1. Every row of the repeat-fraud-cards report has \<^verbatim>\<open>fraud_count >= 3\<close>, and every row
  of the high-risk-merchants report has \<^verbatim>\<open>total_txns >= 20\<close> and \<^verbatim>\<open>fraud_txns >= 3\<close>
  (the latter is not \<^verbatim>\<open>NULL\<close>), whatever the table holds.
\<close>

theorem threshold_invariant:
  "(\<forall>c \<in> set (repeat_fraud_cards rows). 3 \<le> fraud_count c) \<and>
   (\<forall>m \<in> set (high_risk_merchants rows).
      20 \<le> total_txns m \<and> (\<exists>n. fraud_txns m = Some n \<and> 3 \<le> n))"
proof (intro conjI ballI)
  fix c assume "c \<in> set (repeat_fraud_cards rows)"
  from repeat_fraud_cards_row(2,3) [OF this] show "3 \<le> fraud_count c"
    by simp
next
  fix m assume m: "m \<in> set (high_risk_merchants rows)"
  from high_risk_merchants_row(2,4) [OF m] show "20 \<le> total_txns m"
    by simp
  from high_risk_merchants_row(3,5) [OF m] show "\<exists>n. fraud_txns m = Some n \<and> 3 \<le> n"
    by (auto simp add: sql_ge_def split: option.splits)
qed

theorem threshold_invariant_witness:
  "load_data scenario_cards = Inr (table_rows scenario_cards) \<and>
   load_data scenario_merchant = Inr (table_rows scenario_merchant) \<and>
   \<lparr>card_cc_num = 1, fraud_count = 3, card_total_fraud_amount = Some 60,
     first_fraud = Some 10000000000, last_fraud = Some 30000000000\<rparr>
     \<in> set (repeat_fraud_cards (table_rows scenario_cards)) \<and>
   3 \<le> fraud_count
          \<lparr>card_cc_num = 1, fraud_count = 3, card_total_fraud_amount = Some 60,
            first_fraud = Some 10000000000, last_fraud = Some 30000000000\<rparr> \<and>
   \<lparr>group_key = (''m'', ''c''), total_txns = 20, fraud_txns = Some 3,
     fraud_rate_pct = Some 15, total_fraud_amount = Some (21::rat)\<rparr>
     \<in> set (high_risk_merchants (table_rows scenario_merchant)) \<and>
   20 \<le> total_txns
           \<lparr>group_key = (''m'', ''c''), total_txns = 20, fraud_txns = Some 3,
             fraud_rate_pct = Some 15, total_fraud_amount = Some (21::rat)\<rparr> \<and>
   (\<exists>n. fraud_txns
           \<lparr>group_key = (''m'', ''c''), total_txns = 20, fraud_txns = Some 3,
             fraud_rate_pct = Some 15, total_fraud_amount = Some (21::rat)\<rparr> = Some n \<and>
        3 \<le> n)"
proof -
  let ?c = "\<lparr>card_cc_num = 1, fraud_count = 3, card_total_fraud_amount = Some 60,
             first_fraud = Some 10000000000, last_fraud = Some 30000000000\<rparr>"
  let ?m = "\<lparr>group_key = (''m'', ''c''), total_txns = 20, fraud_txns = Some 3,
             fraud_rate_pct = Some 15, total_fraud_amount = Some (21::rat)\<rparr>"
  have c: "?c \<in> set (repeat_fraud_cards (table_rows scenario_cards))"
    by (simp add: sample_reports)
  have m: "?m \<in> set (high_risk_merchants (table_rows scenario_merchant))"
    by (simp add: sample_reports)
  from threshold_invariant [of "table_rows scenario_cards"] c
  have c3: "3 \<le> fraud_count ?c"
    by blast
  from threshold_invariant [of "table_rows scenario_merchant"] m
  have m3: "20 \<le> total_txns ?m \<and> (\<exists>n. fraud_txns ?m = Some n \<and> 3 \<le> n)"
    by blast
  from sample_tables(1,2) c m c3 m3 show ?thesis
    by (intro conjI) blast+
qed

subsection \<open>Repeat-fraud cards\<close>

text \<open>
  C10. Each row of the repeat-fraud-cards report is computed from the fraud rows of its
  card alone: \<^verbatim>\<open>first_fraud\<close> and \<^verbatim>\<open>last_fraud\<close> are the least and the greatest
  transaction timestamp among them, \<^verbatim>\<open>fraud_count\<close> is their number and
  \<^verbatim>\<open>total_fraud_amount\<close> is the sum of their amounts (rounded to two decimals, as every
  monetary sum is). The other rows of the card contribute nothing.
\<close>

theorem repeat_fraud_cards_over_fraud_rows:
  "\<forall>c \<in> set (repeat_fraud_cards rows).
     (let fr = fraud_rows (\<lambda>r. cc_num r = card_cc_num c) rows
      in fr \<noteq> [] \<and>
         first_fraud c = Some (Min (trans_date_trans_time ` set fr)) \<and>
         last_fraud c = Some (Max (trans_date_trans_time ` set fr)) \<and>
         fraud_count c = int (length fr) \<and>
         card_total_fraud_amount c = Some (round2 (sum_list (map amt fr))))"
proof
  fix c assume c: "c \<in> set (repeat_fraud_cards rows)"
  let ?fr = "fraud_rows (\<lambda>r. cc_num r = card_cc_num c) rows"
  note row = repeat_fraud_cards_row [OF c]
  have ne: "?fr \<noteq> []"
    by (rule row(1))
  have "first_fraud c = Some (Min (trans_date_trans_time ` set ?fr))"
    unfolding row(5) by (rule sql_min_col [OF ne])
  moreover have "last_fraud c = Some (Max (trans_date_trans_time ` set ?fr))"
    unfolding row(6) by (rule sql_max_col [OF ne])
  moreover have "fraud_count c = int (length ?fr)"
    unfolding row(3) by (simp add: sql_count_def)
  moreover have "card_total_fraud_amount c = Some (round2 (sum_list (map amt ?fr)))"
    unfolding row(4) using ne by (simp add: sql_sum_col sql_round2_def)
  ultimately show
    "let fr = ?fr
     in fr \<noteq> [] \<and>
        first_fraud c = Some (Min (trans_date_trans_time ` set fr)) \<and>
        last_fraud c = Some (Max (trans_date_trans_time ` set fr)) \<and>
        fraud_count c = int (length fr) \<and>
        card_total_fraud_amount c = Some (round2 (sum_list (map amt fr)))"
    using ne by (simp add: Let_def)
qed

theorem repeat_fraud_cards_over_fraud_rows_witness:
  "load_data scenario_cards = Inr (table_rows scenario_cards) \<and>
   \<lparr>card_cc_num = 1, fraud_count = 3, card_total_fraud_amount = Some 60,
     first_fraud = Some 10000000000, last_fraud = Some 30000000000\<rparr>
     \<in> set (repeat_fraud_cards (table_rows scenario_cards)) \<and>
   Min (trans_date_trans_time ` set (fraud_rows (\<lambda>r. cc_num r = 1) (table_rows scenario_cards)))
     = 10000000000 \<and>
   Max (trans_date_trans_time ` set (fraud_rows (\<lambda>r. cc_num r = 1) (table_rows scenario_cards)))
     = 30000000000 \<and>
   int (length (fraud_rows (\<lambda>r. cc_num r = 1) (table_rows scenario_cards))) = 3 \<and>
   round2 (sum_list (map amt (fraud_rows (\<lambda>r. cc_num r = 1) (table_rows scenario_cards)))) = 60"
  using repeat_fraud_cards_over_fraud_rows [of "table_rows scenario_cards"]
  by (simp add: sample_reports sample_tables Let_def)

subsection \<open>Fraud amounts\<close>

text \<open>
  C7. \<^verbatim>\<open>avg_fraud_amt\<close> of a category is the mean amount of the fraud rows of that
  category (\<^verbatim>\<open>NULL\<close> when it has none); non-fraud rows do not enter the mean.
  \<^verbatim>\<open>total_fraud_amount\<close> is the sum of the amounts of the fraud rows of the group, in
  every overview that \<^verbatim>\<open>fraud_overview\<close> prints, in the high-risk-merchants report and
  in the repeat-fraud-cards report; in an overview without fraud rows it is 0, not
  \<^verbatim>\<open>NULL\<close>. Amounts are rounded to two decimals.
\<close>

theorem fraud_amount_metrics:
  "(\<forall>m \<in> set (fraud_by_category rows).
      avg_fraud_amt m =
        (let fr = fraud_rows (\<lambda>r. category r = group_key m) rows
         in if fr = [] then None else Some (round2 (mean (map amt fr))))) \<and>
   (fraud_overview rows = Inr ov \<longrightarrow>
      ov_total_fraud_amount ov
        = Some (round2 (sum_list (map amt (fraud_rows (\<lambda>r. True) rows))))) \<and>
   (fraud_overview rows = Inr ov \<and> fraud_rows (\<lambda>r. True) rows = [] \<longrightarrow>
      ov_total_fraud_amount ov = Some 0) \<and>
   (\<forall>m \<in> set (high_risk_merchants rows).
      total_fraud_amount m =
        Some (round2 (sum_list (map amt
          (fraud_rows (\<lambda>r. (merchant r, category r) = group_key m) rows))))) \<and>
   (\<forall>c \<in> set (repeat_fraud_cards rows).
      card_total_fraud_amount c =
        Some (round2 (sum_list (map amt (fraud_rows (\<lambda>r. cc_num r = card_cc_num c) rows)))))"
proof (intro conjI ballI impI)
  fix m assume m: "m \<in> set (fraud_by_category rows)"
  show "avg_fraud_amt m =
      (let fr = fraud_rows (\<lambda>r. category r = group_key m) rows
       in if fr = [] then None else Some (round2 (mean (map amt fr))))"
    unfolding fraud_by_category_row(2) [OF m]
    by (simp add: sql_avg_when fraud_rows_def sql_round2_def Let_def)
next
  assume "fraud_overview rows = Inr ov"
  then have "rows \<noteq> []" and "ov = fraud_overview_query rows"
    by (simp_all add: fraud_overview_Inr)
  then show "ov_total_fraud_amount ov
      = Some (round2 (sum_list (map amt (fraud_rows (\<lambda>r. True) rows))))"
    by (simp add: fraud_overview_query_def sql_sum_when_else_zero sql_round2_def fraud_rows_def)
next
  assume "fraud_overview rows = Inr ov \<and> fraud_rows (\<lambda>r. True) rows = []"
  then have "rows \<noteq> []" and "ov = fraud_overview_query rows"
    and "fraud_rows (\<lambda>r. True) rows = []"
    by (simp_all add: fraud_overview_Inr)
  then show "ov_total_fraud_amount ov = Some 0"
    by (simp add: fraud_overview_query_def sql_sum_when_else_zero sql_round2_def fraud_rows_def
        round2_zero)
next
  fix m assume m: "m \<in> set (high_risk_merchants rows)"
  from high_risk_merchants_row(1) [OF m]
  show "total_fraud_amount m =
      Some (round2 (sum_list (map amt
        (fraud_rows (\<lambda>r. (merchant r, category r) = group_key m) rows))))"
    unfolding high_risk_merchants_row(6) [OF m]
    by (simp add: sql_sum_when_else_zero fraud_rows_def sql_round2_def)
next
  fix c assume c: "c \<in> set (repeat_fraud_cards rows)"
  from repeat_fraud_cards_row(1) [OF c]
  show "card_total_fraud_amount c =
      Some (round2 (sum_list (map amt (fraud_rows (\<lambda>r. cc_num r = card_cc_num c) rows))))"
    unfolding repeat_fraud_cards_row(4) [OF c]
    by (simp add: sql_sum_col sql_round2_def)
qed

theorem fraud_amount_metrics_witness:
  "\<lparr>group_key = ''c'', total_txns = 6, fraud_txns = Some 5,
     fraud_rate_pct = Some (8333 / 100), avg_fraud_amt = Some 32\<rparr>
     \<in> set (fraud_by_category (table_rows scenario_cards)) \<and>
   round2 (mean (map amt (fraud_rows (\<lambda>r. category r = ''c'') (table_rows scenario_cards)))) = 32 \<and>
   fraud_overview (table_rows scenario_cards) =
     Inr \<lparr>ov_total_txns = 6, ov_fraud_count = Some 5, ov_fraud_rate_pct = Some (8333 / 100),
          ov_avg_amount = Some (19333 / 100), ov_total_fraud_amount = Some 160\<rparr> \<and>
   round2 (sum_list (map amt (fraud_rows (\<lambda>r. True) (table_rows scenario_cards)))) = 160 \<and>
   fraud_overview (table_rows [base_txn]) =
     Inr \<lparr>ov_total_txns = 1, ov_fraud_count = Some 0, ov_fraud_rate_pct = Some 0,
          ov_avg_amount = Some 50, ov_total_fraud_amount = Some 0\<rparr> \<and>
   fraud_rows (\<lambda>r. True) (table_rows [base_txn]) = [] \<and>
   \<lparr>group_key = (''m'', ''c''), total_txns = 20, fraud_txns = Some 3,
     fraud_rate_pct = Some 15, total_fraud_amount = Some 21\<rparr>
     \<in> set (high_risk_merchants (table_rows scenario_merchant)) \<and>
   round2 (sum_list (map amt
     (fraud_rows (\<lambda>r. (merchant r, category r) = (''m'', ''c'')) (table_rows scenario_merchant))))
     = 21 \<and>
   \<lparr>card_cc_num = 1, fraud_count = 3, card_total_fraud_amount = Some 60,
     first_fraud = Some 10000000000, last_fraud = Some 30000000000\<rparr>
     \<in> set (repeat_fraud_cards (table_rows scenario_cards)) \<and>
   round2 (sum_list (map amt (fraud_rows (\<lambda>r. cc_num r = 1) (table_rows scenario_cards)))) = 60"
proof -
  let ?ov1 = "\<lparr>ov_total_txns = 6, ov_fraud_count = Some 5, ov_fraud_rate_pct = Some (8333 / 100),
          ov_avg_amount = Some (19333 / 100), ov_total_fraud_amount = Some (160::rat)\<rparr>"
  let ?ov2 = "\<lparr>ov_total_txns = 1, ov_fraud_count = Some 0, ov_fraud_rate_pct = Some 0,
          ov_avg_amount = Some 50, ov_total_fraud_amount = Some (0::rat)\<rparr>"
  have o1: "fraud_overview (table_rows scenario_cards) = Inr ?ov1"
    by code_simp
  have o2: "fraud_overview (table_rows [base_txn]) = Inr ?ov2"
    by code_simp
  have nf: "fraud_rows (\<lambda>r. True) (table_rows [base_txn]) = []"
    by code_simp
  have fc: "fraud_rows (\<lambda>r. category r = ''c'') (table_rows scenario_cards) \<noteq> []"
    by code_simp
  from fraud_amount_metrics [of "table_rows scenario_cards" ?ov1] fc o1
  have a: "round2 (mean (map amt
      (fraud_rows (\<lambda>r. category r = ''c'') (table_rows scenario_cards)))) = 32"
    and t: "round2 (sum_list (map amt (fraud_rows (\<lambda>r. True) (table_rows scenario_cards)))) = 160"
    and c: "round2 (sum_list (map amt
      (fraud_rows (\<lambda>r. cc_num r = 1) (table_rows scenario_cards)))) = 60"
    by (simp_all add: sample_reports Let_def)
  from fraud_amount_metrics [of "table_rows [base_txn]" ?ov2] o2 nf
  have z: "ov_total_fraud_amount ?ov2 = Some 0"
    by blast
  from fraud_amount_metrics [of "table_rows scenario_merchant"]
  have m: "round2 (sum_list (map amt
      (fraud_rows (\<lambda>r. (merchant r, category r) = (''m'', ''c''))
        (table_rows scenario_merchant)))) = 21"
    by (simp add: sample_reports)
  from o1 o2 nf a t c z m show ?thesis
    by (simp add: sample_reports)
qed

subsection \<open>Rows outside the age bins\<close>

lemma fraud_by_age_group_filter:
  assumes "\<And>r. r \<in> set rows \<Longrightarrow> \<not> keep r \<Longrightarrow> age_group r = None"
  shows "fraud_by_age_group (filter keep rows) = fraud_by_age_group rows"
proof -
  have "filter (\<lambda>r. age_group r \<noteq> None) (filter keep rows)
      = filter (\<lambda>r. age_group r \<noteq> None) rows"
    unfolding filter_filter
  proof (rule filter_cong [OF refl])
    fix x assume "x \<in> set rows"
    then have "\<not> keep x \<Longrightarrow> age_group x = None"
      by (rule assms)
    then show "(keep x \<and> age_group x \<noteq> None) = (age_group x \<noteq> None)"
      by (cases "keep x") simp_all
  qed
  then show ?thesis
    by (simp add: fraud_by_age_group_def)
qed

lemma table_rows_age_group:
  assumes "r \<in> set (table_rows df)" and "age r < 0 \<or> 120 < age r"
  shows "age_group r = None"
proof -
  from assms(1) obtain t where r: "r = to_sql_row (derive_row t)"
    by (auto simp add: table_rows_def table_row_def)
  from assms(2) show ?thesis
    unfolding r by (auto simp add: to_sql_row_derived derive_row_derived cut_age_cases)
qed

text \<open>
  C5 (as the claim states it, refuted). A customer of 17 gets the age group \<^verbatim>\<open>18-24\<close>
  and is counted in the by-age-group report; a customer of exactly 120 gets \<^verbatim>\<open>65+\<close>.
\<close>

theorem age_under_18_counterexample:
  "age (derive_row txn_age_17) = 17 \<and>
   age_group (derive_row txn_age_17) = Some ''18-24'' \<and>
   load_data [txn_age_17] = Inr (table_rows [txn_age_17]) \<and>
   fraud_by_age_group (table_rows [txn_age_17]) =
     [\<lparr>group_key = Some ''18-24'', total_txns = 1, fraud_txns = Some 0,
       fraud_rate_pct = Some 0\<rparr>] \<and>
   age (derive_row txn_age_120) = 120 \<and>
   age_group (derive_row txn_age_120) = Some ''65+''"
proof -
  have "fraud_by_age_group (table_rows [txn_age_17]) =
     [\<lparr>group_key = Some ''18-24'', total_txns = 1, fraud_txns = Some 0,
       fraud_rate_pct = Some 0\<rparr>]"
    by code_simp
  then show ?thesis
    using sample_ages(2,3) by (simp add: derive_row_derived cut_age_cases sample_tables)
qed

text \<open>
  C5 (amended). Every row whose derived age is below 0 or above 120 gets no age group,
  and such rows are excluded from the by-age-group report: the report on the loaded
  table is the same with and without them.
\<close>

theorem age_out_of_range_unbucketed:
  "(age (derive_row t) < 0 \<or> 120 < age (derive_row t) \<longrightarrow> age_group (derive_row t) = None) \<and>
   (load_data df = Inr rows \<longrightarrow>
      (\<forall>r \<in> set rows. age r < 0 \<or> 120 < age r \<longrightarrow> age_group r = None) \<and>
      fraud_by_age_group rows =
        fraud_by_age_group (filter (\<lambda>r. \<not> (age r < 0 \<or> 120 < age r)) rows))"
proof (intro conjI impI)
  assume "age (derive_row t) < 0 \<or> 120 < age (derive_row t)"
  then show "age_group (derive_row t) = None"
    by (auto simp add: derive_row_derived cut_age_cases)
next
  assume "load_data df = Inr rows"
  then have rows: "rows = table_rows df"
    by (simp add: load_data_Inr)
  show "\<forall>r \<in> set rows. age r < 0 \<or> 120 < age r \<longrightarrow> age_group r = None"
    unfolding rows using table_rows_age_group by blast
  have "fraud_by_age_group (filter (\<lambda>r. \<not> (age r < 0 \<or> 120 < age r)) rows)
      = fraud_by_age_group rows"
  proof (rule fraud_by_age_group_filter)
    fix r assume "r \<in> set rows" and "\<not> \<not> (age r < 0 \<or> 120 < age r)"
    then show "age_group r = None"
      unfolding rows using table_rows_age_group by blast
  qed
  then show "fraud_by_age_group rows =
      fraud_by_age_group (filter (\<lambda>r. \<not> (age r < 0 \<or> 120 < age r)) rows)"
    by simp
qed

theorem age_out_of_range_unbucketed_witness:
  "120 < age (derive_row txn_age_121) \<and>
   age_group (derive_row txn_age_121) = None \<and>
   load_data [base_txn, txn_age_121] = Inr (table_rows [base_txn, txn_age_121]) \<and>
   filter (\<lambda>r. \<not> (age r < 0 \<or> 120 < age r)) (table_rows [base_txn, txn_age_121])
     = table_rows [base_txn] \<and>
   fraud_by_age_group (table_rows [base_txn, txn_age_121]) =
     fraud_by_age_group (table_rows [base_txn]) \<and>
   fraud_by_age_group (table_rows [base_txn]) =
     [\<lparr>group_key = Some ''18-24'', total_txns = 1, fraud_txns = Some 0,
       fraud_rate_pct = Some 0\<rparr>]"
proof -
  have a: "120 < age (derive_row txn_age_121)"
    by (simp add: sample_ages)
  have l: "load_data [base_txn, txn_age_121] = Inr (table_rows [base_txn, txn_age_121])"
    by (rule sample_tables)
  have f: "filter (\<lambda>r. \<not> (age r < 0 \<or> 120 < age r)) (table_rows [base_txn, txn_age_121])
      = table_rows [base_txn]"
    by (simp add: table_rows_def table_row_def to_sql_row_derived sample_ages)
  note inst = age_out_of_range_unbucketed
    [of txn_age_121 "[base_txn, txn_age_121]" "table_rows [base_txn, txn_age_121]"]
  from inst a have g: "age_group (derive_row txn_age_121) = None"
    by (simp only: simp_thms)
  from inst l have "fraud_by_age_group (table_rows [base_txn, txn_age_121]) =
      fraud_by_age_group
        (filter (\<lambda>r. \<not> (age r < 0 \<or> 120 < age r)) (table_rows [base_txn, txn_age_121]))"
    by (simp only: simp_thms)
  then have r: "fraud_by_age_group (table_rows [base_txn, txn_age_121]) =
     fraud_by_age_group (table_rows [base_txn])"
    unfolding f .
  have v: "fraud_by_age_group (table_rows [base_txn]) =
     [\<lparr>group_key = Some ''18-24'', total_txns = 1, fraud_txns = Some 0,
       fraud_rate_pct = Some 0\<rparr>]"
    by code_simp
  from a g l f r v show ?thesis
    by (intro conjI)
qed

subsection \<open>Rows outside the amount bins\<close>

text \<open>
  C6 (the code at the failing input). A row with an amount of 0 has no amount bucket.
  \<^verbatim>\<open>fraud_by_amount_bucket\<close> has no \<^verbatim>\<open>WHERE amount_bucket IS NOT NULL\<close>, unlike the
  age-group and city-size reports, so the row is not excluded: the report holds a row
  whose key is \<^verbatim>\<open>NULL\<close> and which counts that one transaction.
\<close>

theorem amount_bucket_report_counts_null_bucket:
  "amount_bucket (derive_row txn_amt_zero) = None \<and>
   load_data [txn_amt_zero, base_txn] = Inr (table_rows [txn_amt_zero, base_txn]) \<and>
   \<lparr>group_key = None, total_txns = 1, fraud_txns = Some 0, fraud_rate_pct = Some 0\<rparr>
     \<in> set (fraud_by_amount_bucket (table_rows [txn_amt_zero, base_txn]))"
proof -
  have b: "amount_bucket (derive_row txn_amt_zero) = None"
    by (simp add: derive_row_derived cut_amount_cases txn_amt_zero_def)
  have m: "\<lparr>group_key = None, total_txns = 1, fraud_txns = Some 0, fraud_rate_pct = Some 0\<rparr>
     \<in> set (fraud_by_amount_bucket (table_rows [txn_amt_zero, base_txn]))"
    by code_simp
  from b m sample_tables(6) show ?thesis
    by (intro conjI)
qed

text \<open>
  The by-age-group and by-city-size reports leave the rows without a bucket out: the
  report is the same on the table without them.
\<close>

lemma filtered_reports_exclude_null_bucket:
  "fraud_by_age_group (filter (\<lambda>r. age_group r \<noteq> None) rows) = fraud_by_age_group rows"
  "fraud_by_city_size (filter (\<lambda>r. city_size r \<noteq> None) rows) = fraud_by_city_size rows"
  by (simp_all add: fraud_by_age_group_def fraud_by_city_size_def)

subsection \<open>Reports without a filter count every row\<close>

lemma sum_length_filter_key:
  assumes "finite A" and "k ` set rows \<subseteq> A"
  shows "(\<Sum>v \<in> A. length (filter (\<lambda>r. k r = v) rows)) = length rows"
  using assms(2)
proof (induction rows)
  case Nil
  then show ?case by simp
next
  case (Cons r rs)
  then have rs: "(\<Sum>v \<in> A. length (filter (\<lambda>r. k r = v) rs)) = length rs" and r: "k r \<in> A"
    by simp_all
  have "(\<Sum>v \<in> A. length (filter (\<lambda>x. k x = v) (r # rs)))
      = (\<Sum>v \<in> A. (if k r = v then 1 else 0) + length (filter (\<lambda>x. k x = v) rs))"
    by (rule sum.cong) simp_all
  also have "\<dots> = (\<Sum>v \<in> A. if k r = v then 1 else 0) + length rs"
    by (simp add: sum.distrib rs)
  also have "(\<Sum>v \<in> A. if k r = v then 1 else 0) = (1::nat)"
    using assms(1) r by (simp add: sum.delta')
  finally show ?case
    by simp
qed

lemma group_by_counts: "(\<Sum>kg \<leftarrow> group_by k rows. length (snd kg)) = length rows"
proof -
  let ?ks = "sort (remdups (map k rows))"
  have "(\<Sum>kg \<leftarrow> group_by k rows. length (snd kg))
      = (\<Sum>v \<leftarrow> ?ks. length (filter (\<lambda>r. k r = v) rows))"
    by (simp add: group_by_def comp_def)
  also have "\<dots> = (\<Sum>v \<in> set ?ks. length (filter (\<lambda>r. k r = v) rows))"
    by (rule sum_list_distinct_conv_sum_set) simp
  also have "\<dots> = length rows"
    by (rule sum_length_filter_key) simp_all
  finally show ?thesis .
qed

lemma rate_stats_total: "total_txns (rate_stats kg) = int (length (snd kg))"
  by (cases kg) (simp add: rate_stats_def sql_count_def)

lemma sum_list_order_by_desc:
  fixes f :: "'b \<Rightarrow> int"
  shows "sum_list (map f (order_by_desc g xs)) = sum_list (map f xs)"
proof -
  have i: "sum_list (map f (insort_desc_key g x ys)) = f x + sum_list (map f ys)" for x ys
    by (induction ys) simp_all
  show ?thesis
    by (induction xs) (simp_all add: order_by_desc_def i)
qed

lemma sum_list_order_by_asc:
  fixes f :: "'b \<Rightarrow> int"
  shows "sum_list (map f (order_by_asc g xs)) = sum_list (map f xs)"
proof -
  have i: "sum_list (map f (insort_key g x ys)) = f x + sum_list (map f ys)" for x ys
    by (induction ys) simp_all
  show ?thesis
    by (induction xs) (simp_all add: order_by_asc_def i)
qed

lemma int_group_sizes:
  "(\<Sum>kg \<leftarrow> group_by k rows. int (length (snd kg))) = int (length rows)"
proof -
  have i: "sum_list (map (\<lambda>kg. int (length (snd kg))) gs)
      = int (sum_list (map (\<lambda>kg. length (snd kg)) gs))" for gs :: "('c \<times> 'd list) list"
    by (induction gs) simp_all
  show ?thesis
    unfolding i group_by_counts ..
qed

lemma rate_rows_total:
  "sum_list (map (total_txns \<circ> rate_stats) (group_by k rows)) = int (length rows)"
  by (simp add: comp_def rate_stats_total int_group_sizes)

text \<open>
  The overview counts every row of the table, and so do the reports by category, by
  hour, by day of the week and by amount bucket, which have no \<^verbatim>\<open>WHERE\<close> clause: their
  \<^verbatim>\<open>total_txns\<close> add up to the number of rows, whatever the buckets of the rows are.
\<close>

lemma unfiltered_reports_count_every_row:
  "ov_total_txns (fraud_overview_query rows) = int (length rows)"
  "(\<Sum>m \<leftarrow> fraud_by_category rows. total_txns m) = int (length rows)"
  "(\<Sum>m \<leftarrow> fraud_by_hour rows. total_txns m) = int (length rows)"
  "(\<Sum>m \<leftarrow> fraud_by_day_of_week rows. total_txns m) = int (length rows)"
  "(\<Sum>m \<leftarrow> fraud_by_amount_bucket rows. total_txns m) = int (length rows)"
proof -
  show "ov_total_txns (fraud_overview_query rows) = int (length rows)"
    by (simp add: fraud_overview_query_def sql_count_def)
  have "(\<Sum>m \<leftarrow> fraud_by_category rows. total_txns m)
      = (\<Sum>kg \<leftarrow> group_by category rows. int (length (snd kg)))"
    by (simp add: fraud_by_category_def sum_list_order_by_desc comp_def case_prod_beta sql_count_def)
  then show "(\<Sum>m \<leftarrow> fraud_by_category rows. total_txns m) = int (length rows)"
    by (simp only: int_group_sizes)
  show "(\<Sum>m \<leftarrow> fraud_by_hour rows. total_txns m) = int (length rows)"
    by (simp add: fraud_by_hour_def sum_list_order_by_asc rate_rows_total)
  show "(\<Sum>m \<leftarrow> fraud_by_day_of_week rows. total_txns m) = int (length rows)"
    by (simp add: fraud_by_day_of_week_def sum_list_order_by_asc rate_rows_total)
  show "(\<Sum>m \<leftarrow> fraud_by_amount_bucket rows. total_txns m) = int (length rows)"
    by (simp add: fraud_by_amount_bucket_def sum_list_order_by_desc rate_rows_total)
qed

subsection \<open>The empty dataset\<close>

text \<open>
  C8 (as the claim states it, refuted). On a dataset without rows the run ends with the
  exception that \<^verbatim>\<open>load_data\<close> raises: no overview and no grouped report is returned.
\<close>

theorem empty_dataset_counterexample:
  "main [] = Inl NotDatetimeLike"
  by (simp add: main_def load_data_def)

text \<open>
  C8 (amended). On an empty input dataset \<^verbatim>\<open>load_data\<close> raises at its first \<^verbatim>\<open>.dt\<close>
  access, before the table is written, so the run returns neither an overview nor a
  grouped report; and no dataset makes \<^verbatim>\<open>load_data\<close> return an empty table, so no
  report is ever computed from one.
\<close>

theorem empty_dataset_fails_at_load:
  "load_data [] = Inl NotDatetimeLike \<and>
   main [] = Inl NotDatetimeLike \<and>
   load_data df \<noteq> Inr []"
  by (simp add: main_def load_data_def table_rows_def)

text \<open>A dataset with at least one row is loaded, and every report of the run is computed.\<close>

lemma main_succeeds_on_rows:
  assumes "df \<noteq> []"
  shows "\<exists>a. main df = Inr a"
proof -
  from assms have l: "load_data df = Inr (table_rows df)" and ne: "table_rows df \<noteq> []"
    by (simp_all add: load_data_def table_rows_def)
  from ne have "fraud_overview (table_rows df) = Inr (fraud_overview_query (table_rows df))"
    by (simp add: fraud_overview_Inr)
  with l show ?thesis
    by (simp add: main_def)
qed

text \<open>
  What the queries would give on an empty \<^verbatim>\<open>transactions\<close> table, which no run
  produces: the overview query has \<^verbatim>\<open>total_txns = 0\<close> and \<^verbatim>\<open>NULL\<close> elsewhere, on
  which \<^verbatim>\<open>fraud_overview\<close> raises, and the grouped queries return no rows.
\<close>

lemma queries_on_empty_table:
  "fraud_overview_query [] =
     \<lparr>ov_total_txns = 0, ov_fraud_count = None, ov_fraud_rate_pct = None,
       ov_avg_amount = None, ov_total_fraud_amount = None\<rparr>"
  "fraud_overview [] = Inl IntConversionError"
  "fraud_by_category [] = []"
  "fraud_by_hour [] = []"
  "fraud_by_day_of_week [] = []"
  "fraud_by_amount_bucket [] = []"
  "fraud_by_state [] n = []"
  "fraud_by_gender [] = []"
  "fraud_by_age_group [] = []"
  "fraud_by_city_size [] = []"
  "repeat_fraud_cards [] = []"
  "high_risk_merchants [] = []"
  "fraud_trend_monthly [] = []"
proof -
  show q: "fraud_overview_query [] =
      \<lparr>ov_total_txns = 0, ov_fraud_count = None, ov_fraud_rate_pct = None,
        ov_avg_amount = None, ov_total_fraud_amount = None\<rparr>"
    by (simp add: fraud_overview_query_def rate_pct_def sql_sum_def sql_avg_def non_null_def
        col_def sql_div_def sql_round2_def sql_count_def)
  show "fraud_overview [] = Inl IntConversionError"
    by (simp add: fraud_overview_def q)
  have d: "order_by_desc f [] = []" for f :: "'b \<Rightarrow> 'a::linorder"
    by (simp add: order_by_desc_def)
  have a: "order_by_asc f [] = []" for f :: "'b \<Rightarrow> 'a::linorder"
    by (simp add: order_by_asc_def)
  have l: "sql_limit k [] = []" for k and xs :: "'b list"
    by (simp add: sql_limit_def)
  show "fraud_by_category [] = []" "fraud_by_hour [] = []" "fraud_by_day_of_week [] = []"
    "fraud_by_amount_bucket [] = []" "fraud_by_state [] n = []" "fraud_by_gender [] = []"
    "fraud_by_age_group [] = []" "fraud_by_city_size [] = []" "repeat_fraud_cards [] = []"
    "high_risk_merchants [] = []" "fraud_trend_monthly [] = []"
    by (simp_all add: d a l group_by_Nil fraud_by_category_def fraud_by_hour_def
        fraud_by_day_of_week_def fraud_by_amount_bucket_def fraud_by_state_def
        fraud_by_gender_def fraud_by_age_group_def fraud_by_city_size_def
        repeat_fraud_cards_def high_risk_merchants_def fraud_trend_monthly_def)
qed

end
